theory Spec2Isabelle
  imports Main "HOL-Library.AList" "HOL-Library.Char_ord" "HOL-Library.List_Lexorder"
    "HOL-Library.Multiset"
begin

section \<open>JSON values, Python exceptions and the library parameters\<close>

text \<open>
  Profile documents, the index and the metadata are JSON files. A JSON value is what
  \<^verbatim>\<open>json.load\<close> returns: \<^verbatim>\<open>None\<close>, a bool, an int, a str, a list or a dict with
  string keys (an association list whose keys are distinct, in insertion order). Floats
  do not occur in any document the program writes.
\<close>

datatype json =
    JNull
  | JBool bool
  | JInt int
  | JStr string
  | JList "json list"
  | JObj "(string \<times> json) list"

text \<open>
  The exceptions that loading a document can raise, and the outcome \<open>Untyped k\<close>:
  \<^verbatim>\<open>from_dict\<close> copies most values without looking at them, so Python would build an
  object whose field \<open>k\<close> holds a value of another type than the dataclass announces.
  Such objects are outside this typed model, and no theorem speaks about them.
\<close>

datatype py_exception = JSONDecodeError | AttributeError | ValueError | TypeError

datatype load_error = Raises py_exception | Untyped string

definition then_r :: "'e + 'a \<Rightarrow> ('a \<Rightarrow> 'e + 'b) \<Rightarrow> 'e + 'b" where
  "then_r m f = (case m of Inl e \<Rightarrow> Inl e | Inr x \<Rightarrow> f x)"

text \<open>
  \<^verbatim>\<open>datetime\<close> is Python's library type. The program only ever prints a datetime with
  \<^verbatim>\<open>isoformat()\<close>, reads one back with \<^verbatim>\<open>datetime.fromisoformat\<close> (which raises
  ValueError on a string it cannot read) and asks for \<^verbatim>\<open>datetime.now()\<close>. The type
  is a parameter \<open>'dt\<close>, the two functions come in a record, and every reading of the
  clock is an argument of the operation that takes it.
\<close>

record 'dt datetime_lib =
  isoformat :: "'dt \<Rightarrow> string"
  fromisoformat :: "string \<Rightarrow> 'dt option"

definition lib_ok :: "'dt datetime_lib \<Rightarrow> bool" where
  "lib_ok L = (\<forall>d. fromisoformat L (isoformat L d) = Some d)"

text \<open>\<^verbatim>\<open>d.get(k, dflt)\<close> on a dict, and on any JSON value (only a dict has \<^verbatim>\<open>get\<close>).\<close>

definition dict_get :: "(string \<times> json) list \<Rightarrow> string \<Rightarrow> json \<Rightarrow> json" where
  "dict_get d k dflt = (case map_of d k of None \<Rightarrow> dflt | Some v \<Rightarrow> v)"

definition py_get :: "json \<Rightarrow> string \<Rightarrow> json \<Rightarrow> load_error + json" where
  "py_get obj k dflt =
     (case obj of JObj d \<Rightarrow> Inr (dict_get d k dflt) | _ \<Rightarrow> Inl (Raises AttributeError))"

text \<open>Reading a copied value at the type its field announces.\<close>

fun str_of :: "json \<Rightarrow> string option" where
  "str_of (JStr s) = Some s"
| "str_of _ = None"

fun dict_of :: "json \<Rightarrow> (string \<times> json) list option" where
  "dict_of (JObj d) = Some d"
| "dict_of _ = None"

definition as_str :: "string \<Rightarrow> json \<Rightarrow> load_error + string" where
  "as_str k v = (case v of JStr s \<Rightarrow> Inr s | _ \<Rightarrow> Inl (Untyped k))"

definition as_opt_str :: "string \<Rightarrow> json \<Rightarrow> load_error + string option" where
  "as_opt_str k v =
     (case v of JNull \<Rightarrow> Inr None | JStr s \<Rightarrow> Inr (Some s) | _ \<Rightarrow> Inl (Untyped k))"

definition as_int :: "string \<Rightarrow> json \<Rightarrow> load_error + int" where
  "as_int k v = (case v of JInt i \<Rightarrow> Inr i | _ \<Rightarrow> Inl (Untyped k))"

definition as_str_list :: "string \<Rightarrow> json \<Rightarrow> load_error + string list" where
  "as_str_list k v =
     (case v of
        JList xs \<Rightarrow>
          (case those (map str_of xs) of None \<Rightarrow> Inl (Untyped k) | Some ss \<Rightarrow> Inr ss)
      | _ \<Rightarrow> Inl (Untyped k))"

definition as_dict_list :: "string \<Rightarrow> json \<Rightarrow> load_error + (string \<times> json) list list" where
  "as_dict_list k v =
     (case v of
        JList xs \<Rightarrow>
          (case those (map dict_of xs) of None \<Rightarrow> Inl (Untyped k) | Some ds \<Rightarrow> Inr ds)
      | _ \<Rightarrow> Inl (Untyped k))"

definition as_str_dict :: "string \<Rightarrow> json \<Rightarrow> load_error + (string \<times> string) list" where
  "as_str_dict k v =
     (case v of
        JObj d \<Rightarrow>
          (case those (map (\<lambda>(key, x). map_option (Pair key) (str_of x)) d) of
             None \<Rightarrow> Inl (Untyped k)
           | Some kvs \<Rightarrow> Inr kvs)
      | _ \<Rightarrow> Inl (Untyped k))"

definition opt_str_json :: "string option \<Rightarrow> json" where
  "opt_str_json v = (case v of None \<Rightarrow> JNull | Some s \<Rightarrow> JStr s)"

definition str_dict_json :: "(string \<times> string) list \<Rightarrow> json" where
  "str_dict_json d = JObj (map (\<lambda>(key, s). (key, JStr s)) d)"

section \<open>The entity model (prospect\_profile.py)\<close>

datatype ProspectType = COMPANY | INDIVIDUAL | ENTREPRENEUR | INVESTOR | PARTNER | CLIENT | OTHER

datatype RelevanceScore = HIGH | MEDIUM | LOW | UNSCORED

datatype ProspectStatus =
  DISCOVERED | QUALIFIED | CONTACTED | ENGAGED | CONVERTED | REJECTED | ARCHIVED

text \<open>The \<^verbatim>\<open>.value\<close> of an enum member.\<close>

fun prospect_type_value :: "ProspectType \<Rightarrow> string" where
  "prospect_type_value COMPANY = ''company''"
| "prospect_type_value INDIVIDUAL = ''individual''"
| "prospect_type_value ENTREPRENEUR = ''entrepreneur''"
| "prospect_type_value INVESTOR = ''investor''"
| "prospect_type_value PARTNER = ''partner''"
| "prospect_type_value CLIENT = ''client''"
| "prospect_type_value OTHER = ''other''"

fun relevance_value :: "RelevanceScore \<Rightarrow> string" where
  "relevance_value HIGH = ''High''"
| "relevance_value MEDIUM = ''Medium''"
| "relevance_value LOW = ''Low''"
| "relevance_value UNSCORED = ''Unscored''"

fun status_value :: "ProspectStatus \<Rightarrow> string" where
  "status_value DISCOVERED = ''discovered''"
| "status_value QUALIFIED = ''qualified''"
| "status_value CONTACTED = ''contacted''"
| "status_value ENGAGED = ''engaged''"
| "status_value CONVERTED = ''converted''"
| "status_value REJECTED = ''rejected''"
| "status_value ARCHIVED = ''archived''"

text \<open>
  Calling the enum class on a value, \<^verbatim>\<open>ProspectType(x)\<close>: the member with that value,
  ValueError when there is none (also when \<open>x\<close> is not a string).
\<close>

definition ProspectType_call :: "json \<Rightarrow> load_error + ProspectType" where
  "ProspectType_call v =
     (case find (\<lambda>m. JStr (prospect_type_value m) = v)
             [COMPANY, INDIVIDUAL, ENTREPRENEUR, INVESTOR, PARTNER, CLIENT, OTHER] of
        None \<Rightarrow> Inl (Raises ValueError)
      | Some m \<Rightarrow> Inr m)"

definition RelevanceScore_call :: "json \<Rightarrow> load_error + RelevanceScore" where
  "RelevanceScore_call v =
     (case find (\<lambda>m. JStr (relevance_value m) = v) [HIGH, MEDIUM, LOW, UNSCORED] of
        None \<Rightarrow> Inl (Raises ValueError)
      | Some m \<Rightarrow> Inr m)"

definition ProspectStatus_call :: "json \<Rightarrow> load_error + ProspectStatus" where
  "ProspectStatus_call v =
     (case find (\<lambda>m. JStr (status_value m) = v)
             [DISCOVERED, QUALIFIED, CONTACTED, ENGAGED, CONVERTED, REJECTED, ARCHIVED] of
        None \<Rightarrow> Inl (Raises ValueError)
      | Some m \<Rightarrow> Inr m)"

text \<open>\<^verbatim>\<open>datetime.fromisoformat(x)\<close>: TypeError unless \<open>x\<close> is a string.\<close>

definition fromisoformat_call :: "'dt datetime_lib \<Rightarrow> json \<Rightarrow> load_error + 'dt" where
  "fromisoformat_call L v =
     (case v of
        JStr s \<Rightarrow>
          (case fromisoformat L s of None \<Rightarrow> Inl (Raises ValueError) | Some d \<Rightarrow> Inr d)
      | _ \<Rightarrow> Inl (Raises TypeError))"

record ContactInfo =
  email :: "string option"
  phone :: "string option"
  linkedin :: "string option"
  website :: "string option"
  twitter :: "string option"
  other :: "(string \<times> string) list"

record GoalAlignment =
  relevance_score :: RelevanceScore
  fit_reasons :: "string list"
  potential_value :: string
  approach_priority :: string
  alignment_notes :: string

record 'dt DiscoveryMetadata =
  discovery_date :: 'dt
  source_query :: string
  search_context :: string
  company_goal :: string
  discovering_company :: string
  discovery_session_id :: string

record 'dt ProspectProfile =
  profile_id :: string
  name :: string
  prospect_type :: ProspectType
  business_description :: string
  industry :: string
  location :: string
  company_size :: string
  company_stage :: string
  contact_info :: ContactInfo
  goal_alignment :: GoalAlignment
  discovery_metadata :: "'dt DiscoveryMetadata"
  recent_activities :: "string list"
  pain_points :: "string list"
  buying_signals :: "string list"
  budget_indicators :: "string list"
  decision_makers :: "string list"
  status :: ProspectStatus
  interactions :: "(string \<times> json) list list"
  notes' :: "(string \<times> json) list list"
  tags :: "string list"
  opportunity_description :: string
  estimated_value :: string
  timeline_indicators :: string
  competitor_analysis :: string
  created_at :: 'dt
  updated_at :: 'dt
  version :: int

text \<open>
  The values that the clock and \<^verbatim>\<open>uuid.uuid4()\<close> give to one operation: the defaults
  \<^verbatim>\<open>from_dict\<close> computes for a missing key, the timestamp of a new note or
  interaction, the new \<^verbatim>\<open>updated_at\<close> of a mutator, and the index's \<^verbatim>\<open>last_updated\<close>.
\<close>

record 'dt ambient =
  uuid4 :: string
  now_discovery :: 'dt
  now_created :: 'dt
  now_updated :: 'dt
  now_stamp :: 'dt
  now_touch :: 'dt
  now_saved :: 'dt

text \<open>
  \<^verbatim>\<open>ProspectProfile()\<close>: the dataclass defaults. The three datetimes are three readings
  of the clock (\<^verbatim>\<open>default_factory=datetime.now\<close>).
\<close>

definition new_ContactInfo :: ContactInfo where
  "new_ContactInfo =
     \<lparr>email = None, phone = None, linkedin = None, website = None, twitter = None,
      other = []\<rparr>"

definition new_GoalAlignment :: GoalAlignment where
  "new_GoalAlignment =
     \<lparr>relevance_score = UNSCORED, fit_reasons = [], potential_value = ''To be determined'',
      approach_priority = ''Medium'', alignment_notes = ''''\<rparr>"

definition new_DiscoveryMetadata :: "'dt \<Rightarrow> 'dt DiscoveryMetadata" where
  "new_DiscoveryMetadata t =
     \<lparr>discovery_date = t, source_query = '''', search_context = '''', company_goal = '''',
      discovering_company = '''', discovery_session_id = ''''\<rparr>"

definition new_ProspectProfile :: "'dt ambient \<Rightarrow> 'dt ProspectProfile" where
  "new_ProspectProfile a =
     \<lparr>profile_id = uuid4 a, name = '''', prospect_type = OTHER,
      business_description = '''', industry = '''', location = '''', company_size = '''',
      company_stage = '''',
      contact_info = new_ContactInfo,
      goal_alignment = new_GoalAlignment,
      discovery_metadata = new_DiscoveryMetadata (now_discovery a),
      recent_activities = [], pain_points = [], buying_signals = [],
      budget_indicators = [], decision_makers = [],
      status = DISCOVERED, interactions = [], notes' = [], tags = [],
      opportunity_description = '''', estimated_value = '''', timeline_indicators = '''',
      competitor_analysis = '''',
      created_at = now_created a, updated_at = now_updated a, version = 1\<rparr>"

definition to_dict :: "'dt datetime_lib \<Rightarrow> 'dt ProspectProfile \<Rightarrow> json" where
  "to_dict L self =
     JObj
      [(''profile_id'', JStr (profile_id self)),
       (''name'', JStr (name self)),
       (''prospect_type'', JStr (prospect_type_value (prospect_type self))),
       (''business_description'', JStr (business_description self)),
       (''industry'', JStr (industry self)),
       (''location'', JStr (location self)),
       (''company_size'', JStr (company_size self)),
       (''company_stage'', JStr (company_stage self)),
       (''contact_info'', JObj
          [(''email'', opt_str_json (email (contact_info self))),
           (''phone'', opt_str_json (phone (contact_info self))),
           (''linkedin'', opt_str_json (linkedin (contact_info self))),
           (''website'', opt_str_json (website (contact_info self))),
           (''twitter'', opt_str_json (twitter (contact_info self))),
           (''other'', str_dict_json (other (contact_info self)))]),
       (''goal_alignment'', JObj
          [(''relevance_score'', JStr (relevance_value (relevance_score (goal_alignment self)))),
           (''fit_reasons'', JList (map JStr (fit_reasons (goal_alignment self)))),
           (''potential_value'', JStr (potential_value (goal_alignment self))),
           (''approach_priority'', JStr (approach_priority (goal_alignment self))),
           (''alignment_notes'', JStr (alignment_notes (goal_alignment self)))]),
       (''discovery_metadata'', JObj
          [(''discovery_date'', JStr (isoformat L (discovery_date (discovery_metadata self)))),
           (''source_query'', JStr (source_query (discovery_metadata self))),
           (''search_context'', JStr (search_context (discovery_metadata self))),
           (''company_goal'', JStr (company_goal (discovery_metadata self))),
           (''discovering_company'', JStr (discovering_company (discovery_metadata self))),
           (''discovery_session_id'', JStr (discovery_session_id (discovery_metadata self)))]),
       (''recent_activities'', JList (map JStr (recent_activities self))),
       (''pain_points'', JList (map JStr (pain_points self))),
       (''buying_signals'', JList (map JStr (buying_signals self))),
       (''budget_indicators'', JList (map JStr (budget_indicators self))),
       (''decision_makers'', JList (map JStr (decision_makers self))),
       (''status'', JStr (status_value (status self))),
       (''interactions'', JList (map JObj (interactions self))),
       (''notes'', JList (map JObj (notes' self))),
       (''tags'', JList (map JStr (tags self))),
       (''opportunity_description'', JStr (opportunity_description self)),
       (''estimated_value'', JStr (estimated_value self)),
       (''timeline_indicators'', JStr (timeline_indicators self)),
       (''competitor_analysis'', JStr (competitor_analysis self)),
       (''created_at'', JStr (isoformat L (created_at self))),
       (''updated_at'', JStr (isoformat L (updated_at self))),
       (''version'', JInt (version self))]"

text \<open>
  \<^verbatim>\<open>from_dict\<close>, block by block in the order of the source, so that the first
  exception Python meets is the one the model returns. \<^verbatim>\<open>cls()\<close> first builds a
  profile of defaults; every field of it is overwritten, so it leaves no trace. The
  default of a \<^verbatim>\<open>get\<close> is computed whether the key is there or not, which only
  matters for the clock readings it takes.
\<close>

definition contact_info_from :: "json \<Rightarrow> load_error + ContactInfo" where
  "contact_info_from contact_data =
     then_r (then_r (py_get contact_data ''email'' JNull) (as_opt_str ''email'')) (\<lambda>v_email.
     then_r (then_r (py_get contact_data ''phone'' JNull) (as_opt_str ''phone'')) (\<lambda>v_phone.
     then_r (then_r (py_get contact_data ''linkedin'' JNull) (as_opt_str ''linkedin'')) (\<lambda>v_linkedin.
     then_r (then_r (py_get contact_data ''website'' JNull) (as_opt_str ''website'')) (\<lambda>v_website.
     then_r (then_r (py_get contact_data ''twitter'' JNull) (as_opt_str ''twitter'')) (\<lambda>v_twitter.
     then_r (then_r (py_get contact_data ''other'' (JObj [])) (as_str_dict ''other'')) (\<lambda>v_other.
     Inr \<lparr>email = v_email, phone = v_phone, linkedin = v_linkedin, website = v_website,
          twitter = v_twitter, other = v_other\<rparr>))))))"

definition goal_alignment_from :: "json \<Rightarrow> load_error + GoalAlignment" where
  "goal_alignment_from goal_data =
     then_r (then_r (py_get goal_data ''relevance_score'' (JStr ''Unscored'')) RelevanceScore_call)
       (\<lambda>v_relevance.
     then_r (then_r (py_get goal_data ''fit_reasons'' (JList [])) (as_str_list ''fit_reasons''))
       (\<lambda>v_fit.
     then_r (then_r (py_get goal_data ''potential_value'' (JStr ''To be determined''))
               (as_str ''potential_value'')) (\<lambda>v_potential.
     then_r (then_r (py_get goal_data ''approach_priority'' (JStr ''Medium''))
               (as_str ''approach_priority'')) (\<lambda>v_priority.
     then_r (then_r (py_get goal_data ''alignment_notes'' (JStr ''''))
               (as_str ''alignment_notes'')) (\<lambda>v_notes.
     Inr \<lparr>relevance_score = v_relevance, fit_reasons = v_fit, potential_value = v_potential,
          approach_priority = v_priority, alignment_notes = v_notes\<rparr>)))))"

definition discovery_metadata_from ::
  "'dt datetime_lib \<Rightarrow> 'dt ambient \<Rightarrow> json \<Rightarrow> load_error + 'dt DiscoveryMetadata" where
  "discovery_metadata_from L a discovery_data =
     then_r (then_r (py_get discovery_data ''discovery_date'' (JStr (isoformat L (now_discovery a))))
               (fromisoformat_call L)) (\<lambda>v_date.
     then_r (then_r (py_get discovery_data ''source_query'' (JStr '''')) (as_str ''source_query''))
       (\<lambda>v_query.
     then_r (then_r (py_get discovery_data ''search_context'' (JStr ''''))
               (as_str ''search_context'')) (\<lambda>v_context.
     then_r (then_r (py_get discovery_data ''company_goal'' (JStr '''')) (as_str ''company_goal''))
       (\<lambda>v_goal.
     then_r (then_r (py_get discovery_data ''discovering_company'' (JStr ''''))
               (as_str ''discovering_company'')) (\<lambda>v_company.
     then_r (then_r (py_get discovery_data ''discovery_session_id'' (JStr ''''))
               (as_str ''discovery_session_id'')) (\<lambda>v_session.
     Inr \<lparr>discovery_date = v_date, source_query = v_query, search_context = v_context,
          company_goal = v_goal, discovering_company = v_company,
          discovery_session_id = v_session\<rparr>))))))"

definition from_dict ::
  "'dt datetime_lib \<Rightarrow> 'dt ambient \<Rightarrow> json \<Rightarrow> load_error + 'dt ProspectProfile" where
  "from_dict L a data =
     then_r (then_r (py_get data ''profile_id'' (JStr (uuid4 a))) (as_str ''profile_id'')) (\<lambda>v_id.
     then_r (then_r (py_get data ''name'' (JStr '''')) (as_str ''name'')) (\<lambda>v_name.
     then_r (then_r (py_get data ''prospect_type'' (JStr ''other'')) ProspectType_call) (\<lambda>v_type.
     then_r (then_r (py_get data ''business_description'' (JStr ''''))
               (as_str ''business_description'')) (\<lambda>v_business.
     then_r (then_r (py_get data ''industry'' (JStr '''')) (as_str ''industry'')) (\<lambda>v_industry.
     then_r (then_r (py_get data ''location'' (JStr '''')) (as_str ''location'')) (\<lambda>v_location.
     then_r (then_r (py_get data ''company_size'' (JStr '''')) (as_str ''company_size'')) (\<lambda>v_size.
     then_r (then_r (py_get data ''company_stage'' (JStr '''')) (as_str ''company_stage''))
       (\<lambda>v_stage.
     then_r (then_r (py_get data ''contact_info'' (JObj [])) contact_info_from) (\<lambda>v_contact.
     then_r (then_r (py_get data ''goal_alignment'' (JObj [])) goal_alignment_from) (\<lambda>v_alignment.
     then_r (then_r (py_get data ''discovery_metadata'' (JObj [])) (discovery_metadata_from L a))
       (\<lambda>v_discovery.
     then_r (then_r (py_get data ''recent_activities'' (JList []))
               (as_str_list ''recent_activities'')) (\<lambda>v_activities.
     then_r (then_r (py_get data ''pain_points'' (JList [])) (as_str_list ''pain_points''))
       (\<lambda>v_pain.
     then_r (then_r (py_get data ''buying_signals'' (JList [])) (as_str_list ''buying_signals''))
       (\<lambda>v_signals.
     then_r (then_r (py_get data ''budget_indicators'' (JList []))
               (as_str_list ''budget_indicators'')) (\<lambda>v_budget.
     then_r (then_r (py_get data ''decision_makers'' (JList [])) (as_str_list ''decision_makers''))
       (\<lambda>v_makers.
     then_r (then_r (py_get data ''interactions'' (JList [])) (as_dict_list ''interactions''))
       (\<lambda>v_interactions.
     then_r (then_r (py_get data ''notes'' (JList [])) (as_dict_list ''notes'')) (\<lambda>v_notes.
     then_r (then_r (py_get data ''tags'' (JList [])) (as_str_list ''tags'')) (\<lambda>v_tags.
     then_r (then_r (py_get data ''status'' (JStr ''discovered'')) ProspectStatus_call)
       (\<lambda>v_status.
     then_r (then_r (py_get data ''opportunity_description'' (JStr ''''))
               (as_str ''opportunity_description'')) (\<lambda>v_opportunity.
     then_r (then_r (py_get data ''estimated_value'' (JStr '''')) (as_str ''estimated_value''))
       (\<lambda>v_estimated.
     then_r (then_r (py_get data ''timeline_indicators'' (JStr ''''))
               (as_str ''timeline_indicators'')) (\<lambda>v_timeline.
     then_r (then_r (py_get data ''competitor_analysis'' (JStr ''''))
               (as_str ''competitor_analysis'')) (\<lambda>v_competitor.
     then_r (then_r (py_get data ''created_at'' (JStr (isoformat L (now_created a))))
               (fromisoformat_call L)) (\<lambda>v_created.
     then_r (then_r (py_get data ''updated_at'' (JStr (isoformat L (now_updated a))))
               (fromisoformat_call L)) (\<lambda>v_updated.
     then_r (then_r (py_get data ''version'' (JInt 1)) (as_int ''version'')) (\<lambda>v_version.
     Inr \<lparr>profile_id = v_id, name = v_name, prospect_type = v_type,
          business_description = v_business, industry = v_industry, location = v_location,
          company_size = v_size, company_stage = v_stage,
          contact_info = v_contact, goal_alignment = v_alignment,
          discovery_metadata = v_discovery,
          recent_activities = v_activities, pain_points = v_pain, buying_signals = v_signals,
          budget_indicators = v_budget, decision_makers = v_makers,
          status = v_status, interactions = v_interactions, notes' = v_notes, tags = v_tags,
          opportunity_description = v_opportunity, estimated_value = v_estimated,
          timeline_indicators = v_timeline, competitor_analysis = v_competitor,
          created_at = v_created, updated_at = v_updated,
          version = v_version\<rparr>)))))))))))))))))))))))))))"

text \<open>
  The mutators of a profile. Each takes the clock readings it makes; a note and an
  interaction are dicts of strings.
\<close>

definition add_interaction ::
  "'dt datetime_lib \<Rightarrow> 'dt \<Rightarrow> 'dt \<Rightarrow> 'dt ProspectProfile \<Rightarrow> string \<Rightarrow> string \<Rightarrow> string \<Rightarrow>
   'dt ProspectProfile" where
  "add_interaction L t_stamp t_touch self interaction_type content outcome =
     self\<lparr>interactions := interactions self @
            [[(''timestamp'', JStr (isoformat L t_stamp)),
              (''type'', JStr interaction_type),
              (''content'', JStr content),
              (''outcome'', JStr outcome),
              (''user'', JStr ''system'')]],
          updated_at := t_touch,
          version := version self + 1\<rparr>"

definition add_note ::
  "'dt datetime_lib \<Rightarrow> 'dt \<Rightarrow> 'dt \<Rightarrow> 'dt ProspectProfile \<Rightarrow> string \<Rightarrow> string \<Rightarrow>
   'dt ProspectProfile" where
  "add_note L t_stamp t_touch self note category =
     self\<lparr>notes' := notes' self @
            [[(''timestamp'', JStr (isoformat L t_stamp)),
              (''category'', JStr category),
              (''content'', JStr note),
              (''user'', JStr ''system'')]],
          updated_at := t_touch,
          version := version self + 1\<rparr>"

definition update_status ::
  "'dt \<Rightarrow> 'dt ProspectProfile \<Rightarrow> ProspectStatus \<Rightarrow> 'dt ProspectProfile" where
  "update_status t_touch self new_status =
     self\<lparr>status := new_status, updated_at := t_touch, version := version self + 1\<rparr>"

definition add_tag :: "'dt \<Rightarrow> 'dt ProspectProfile \<Rightarrow> string \<Rightarrow> 'dt ProspectProfile" where
  "add_tag t_touch self tag =
     (if tag \<notin> set (tags self)
      then self\<lparr>tags := tags self @ [tag], updated_at := t_touch, version := version self + 1\<rparr>
      else self)"

section \<open>The document store and its index (profile\_storage.py)\<close>

text \<open>
  The entry of a profile in \<^verbatim>\<open>index["profiles"]\<close>. The index keeps the dict order of
  Python (a new key goes last, an old key keeps its place), which \<^verbatim>\<open>list_profiles\<close>
  shows for equal timestamps; the five bucket maps are read by key only. The summary
  holds the tag list of the profile as it was at the update (Python shares the list
  object with the profile that was passed). \<^verbatim>\<open>_remove_from_index\<close> reads the summary
  with \<^verbatim>\<open>get\<close> and defaults; a summary written by \<^verbatim>\<open>_update_index\<close> has every key.
\<close>

record summary =
  sum_name :: string
  sum_prospect_type :: string
  sum_status :: string
  sum_relevance_score :: string
  sum_company_goal :: string
  sum_discovering_company :: string
  sum_created_at :: string
  sum_updated_at :: string
  sum_tags :: "string list"

record profile_index =
  profiles :: "(string \<times> summary) list"
  by_company :: "string \<rightharpoonup> string list"
  by_goal :: "string \<rightharpoonup> string list"
  by_status :: "string \<rightharpoonup> string list"
  by_relevance :: "string \<rightharpoonup> string list"
  by_tags :: "string \<rightharpoonup> string list"
  last_updated :: string

record storage_metadata =
  meta_version :: string
  meta_created_at :: string
  total_profiles :: int
  last_backup :: "string option"

text \<open>
  A file of the profiles directory holds JSON text that \<^verbatim>\<open>json.load\<close> reads into a
  value, or text it refuses (JSONDecodeError). File operations themselves succeed: the
  model has no full disk and no missing directory, and one file per profile id.
\<close>

datatype file_content = Malformed | Document json

record storage =
  files :: "string \<rightharpoonup> file_content"
  index :: profile_index
  metadata :: storage_metadata

text \<open>\<^verbatim>\<open>ProfileStorage(dir)\<close> on a directory with no index and no metadata file.\<close>

definition init_storage :: "'dt datetime_lib \<Rightarrow> 'dt \<Rightarrow> 'dt \<Rightarrow> storage" where
  "init_storage L t_index t_meta =
     \<lparr>files = Map.empty,
      index = \<lparr>profiles = [], by_company = Map.empty, by_goal = Map.empty,
               by_status = Map.empty, by_relevance = Map.empty, by_tags = Map.empty,
               last_updated = isoformat L t_index\<rparr>,
      metadata = \<lparr>meta_version = ''1.0'', meta_created_at = isoformat L t_meta,
                  total_profiles = 0, last_backup = None\<rparr>\<rparr>"

text \<open>
  The step \<^verbatim>\<open>_update_index\<close> repeats for each secondary map: create the bucket of the
  key when it is missing, append the id unless the bucket has it.
\<close>

definition bucket_add ::
  "(string \<rightharpoonup> string list) \<Rightarrow> string \<Rightarrow> string \<Rightarrow> (string \<rightharpoonup> string list)" where
  "bucket_add m key pid =
     (case m key of
        None \<Rightarrow> m(key \<mapsto> [pid])
      | Some bucket \<Rightarrow> if pid \<notin> set bucket then m(key \<mapsto> bucket @ [pid]) else m)"

definition update_index ::
  "'dt datetime_lib \<Rightarrow> profile_index \<Rightarrow> 'dt ProspectProfile \<Rightarrow> profile_index" where
  "update_index L idx profile =
     idx\<lparr>profiles :=
           AList.update (profile_id profile)
             \<lparr>sum_name = name profile,
              sum_prospect_type = prospect_type_value (prospect_type profile),
              sum_status = status_value (status profile),
              sum_relevance_score = relevance_value (relevance_score (goal_alignment profile)),
              sum_company_goal = company_goal (discovery_metadata profile),
              sum_discovering_company = discovering_company (discovery_metadata profile),
              sum_created_at = isoformat L (created_at profile),
              sum_updated_at = isoformat L (updated_at profile),
              sum_tags = tags profile\<rparr>
             (profiles idx),
         by_company :=
           bucket_add (by_company idx) (discovering_company (discovery_metadata profile))
             (profile_id profile),
         by_goal :=
           bucket_add (by_goal idx) (company_goal (discovery_metadata profile))
             (profile_id profile),
         by_status :=
           bucket_add (by_status idx) (status_value (status profile)) (profile_id profile),
         by_relevance :=
           bucket_add (by_relevance idx)
             (relevance_value (relevance_score (goal_alignment profile))) (profile_id profile),
         by_tags :=
           foldl (\<lambda>m tag. bucket_add m tag (profile_id profile)) (by_tags idx) (tags profile)\<rparr>"

text \<open>
  The step of \<^verbatim>\<open>_remove_from_index\<close>: when the key has a bucket, take the first
  occurrence of the id out of it (\<^verbatim>\<open>list.remove\<close>) and drop the bucket once empty.
\<close>

definition bucket_remove ::
  "(string \<rightharpoonup> string list) \<Rightarrow> string \<Rightarrow> string \<Rightarrow> (string \<rightharpoonup> string list)" where
  "bucket_remove m key pid =
     (case m key of
        None \<Rightarrow> m
      | Some bucket \<Rightarrow>
          (let bucket' = (if pid \<in> set bucket then remove1 pid bucket else bucket)
           in if bucket' = [] then m(key := None) else m(key \<mapsto> bucket')))"

definition remove_from_index :: "profile_index \<Rightarrow> string \<Rightarrow> profile_index" where
  "remove_from_index idx pid =
     (case map_of (profiles idx) pid of
        None \<Rightarrow> idx
      | Some profile_data \<Rightarrow>
          idx\<lparr>profiles := AList.delete pid (profiles idx),
              by_company := bucket_remove (by_company idx) (sum_discovering_company profile_data) pid,
              by_goal := bucket_remove (by_goal idx) (sum_company_goal profile_data) pid,
              by_status := bucket_remove (by_status idx) (sum_status profile_data) pid,
              by_relevance :=
                bucket_remove (by_relevance idx) (sum_relevance_score profile_data) pid,
              by_tags :=
                foldl (\<lambda>m tag. bucket_remove m tag pid) (by_tags idx) (sum_tags profile_data)\<rparr>)"

text \<open>\<^verbatim>\<open>_save_index\<close> stamps the index; the metadata counts the entries of the index.\<close>

definition save_index :: "'dt datetime_lib \<Rightarrow> 'dt \<Rightarrow> profile_index \<Rightarrow> profile_index" where
  "save_index L t idx = idx\<lparr>last_updated := isoformat L t\<rparr>"

definition count_profiles :: "profile_index \<Rightarrow> storage_metadata \<Rightarrow> storage_metadata" where
  "count_profiles idx m = m\<lparr>total_profiles := int (length (profiles idx))\<rparr>"

text \<open>
  \<^verbatim>\<open>save_profile\<close> and \<^verbatim>\<open>delete_profile\<close> return the bool of the source and the new
  store. Nothing in their \<^verbatim>\<open>try\<close> blocks raises on a typed profile when the files can
  be written, so the \<^verbatim>\<open>except\<close> branch (return False) is never taken here.
\<close>

definition save_profile ::
  "'dt datetime_lib \<Rightarrow> 'dt \<Rightarrow> storage \<Rightarrow> 'dt ProspectProfile \<Rightarrow> bool \<times> storage" where
  "save_profile L t st profile =
     (let idx = save_index L t (update_index L (index st) profile)
      in (True,
          st\<lparr>files := (files st)(profile_id profile \<mapsto> Document (to_dict L profile)),
             index := idx,
             metadata := count_profiles idx (metadata st)\<rparr>))"

definition delete_profile ::
  "'dt datetime_lib \<Rightarrow> 'dt \<Rightarrow> storage \<Rightarrow> string \<Rightarrow> bool \<times> storage" where
  "delete_profile L t st pid =
     (let idx = save_index L t (remove_from_index (index st) pid)
      in (True,
          st\<lparr>files := (if files st pid \<noteq> None then (files st)(pid := None) else files st),
             index := idx,
             metadata := count_profiles idx (metadata st)\<rparr>))"

text \<open>
  \<^verbatim>\<open>load_profile\<close>: the body of the \<^verbatim>\<open>try\<close>, then the \<^verbatim>\<open>except Exception\<close> around
  it, which prints the exception and returns None. \<open>Inl k\<close> is the document whose field
  \<open>k\<close> has another type than the dataclass announces.
\<close>

definition load_profile_try ::
  "'dt datetime_lib \<Rightarrow> 'dt ambient \<Rightarrow> storage \<Rightarrow> string \<Rightarrow>
   load_error + 'dt ProspectProfile option" where
  "load_profile_try L a st pid =
     (case files st pid of
        None \<Rightarrow> Inr None
      | Some Malformed \<Rightarrow> Inl (Raises JSONDecodeError)
      | Some (Document profile_data) \<Rightarrow>
          then_r (from_dict L a profile_data) (\<lambda>profile. Inr (Some profile)))"

definition load_profile ::
  "'dt datetime_lib \<Rightarrow> 'dt ambient \<Rightarrow> storage \<Rightarrow> string \<Rightarrow>
   string + 'dt ProspectProfile option" where
  "load_profile L a st pid =
     (case load_profile_try L a st pid of
        Inl (Raises e) \<Rightarrow> Inr None
      | Inl (Untyped k) \<Rightarrow> Inl k
      | Inr found \<Rightarrow> Inr found)"

text \<open>
  \<^verbatim>\<open>list_profiles\<close>. A Python slice \<^verbatim>\<open>xs[i:j]\<close> takes any two ints: a negative bound
  counts from the end, and both are clipped to the list. \<^verbatim>\<open>sort(key, reverse=True)\<close>
  is stable: entries with equal keys keep their order. An entry of the result is the
  summary with its \<^verbatim>\<open>profile_id\<close>, here the pair of the two.
\<close>

definition slice_bound :: "int \<Rightarrow> nat \<Rightarrow> nat" where
  "slice_bound i n = (if i < 0 then nat (max (i + int n) 0) else min (nat i) n)"

definition py_slice :: "'a list \<Rightarrow> int \<Rightarrow> int \<Rightarrow> 'a list" where
  "py_slice xs i j =
     (let lo = slice_bound i (length xs); hi = slice_bound j (length xs)
      in take (hi - lo) (drop lo xs))"

definition sort_reverse :: "('a \<Rightarrow> 'k::linorder) \<Rightarrow> 'a list \<Rightarrow> 'a list" where
  "sort_reverse f xs = rev (sort_key f (rev xs))"

definition list_profiles :: "storage \<Rightarrow> int \<Rightarrow> int \<Rightarrow> (string \<times> summary) list" where
  "list_profiles st limit offset =
     py_slice (sort_reverse (\<lambda>x. sum_updated_at (snd x)) (profiles (index st)))
       offset (offset + limit)"

text \<open>
  \<^verbatim>\<open>search_profiles(**filters)\<close>. The keyword arguments the function reads are the
  fields of a record, \<open>None\<close> for a keyword that is not passed; \<open>f_unknown\<close> lists the
  keywords it does not read, which still make \<^verbatim>\<open>filters\<close> non-empty. The result is
  built as a set and returned as a list in the set's own order, so the model returns
  the set. \<^verbatim>\<open>str.lower\<close> is modelled on ASCII letters.
\<close>

datatype tag_filter = OneTag string | TagList "string list"

record filters =
  f_company :: "string option"
  f_goal :: "string option"
  f_status :: "string option"
  f_relevance :: "string option"
  f_tags :: "tag_filter option"
  f_name :: "string option"
  f_unknown :: "string list"

definition no_filters :: filters where
  "no_filters =
     \<lparr>f_company = None, f_goal = None, f_status = None, f_relevance = None, f_tags = None,
      f_name = None, f_unknown = []\<rparr>"

definition lower_char :: "char \<Rightarrow> char" where
  "lower_char c =
     (if CHR ''A'' \<le> c \<and> c \<le> CHR ''Z'' then char_of (of_char c + (32::nat)) else c)"

definition lower :: "string \<Rightarrow> string" where
  "lower s = map lower_char s"

fun is_substring :: "string \<Rightarrow> string \<Rightarrow> bool" where
  "is_substring sub [] = (sub = [])"
| "is_substring sub (c # cs) = (take (length sub) (c # cs) = sub \<or> is_substring sub cs)"

text \<open>
  What every filter after the first does with its matches: intersect when the running
  result is non-empty, add them when it is empty.
\<close>

definition narrow :: "string set \<Rightarrow> string list \<Rightarrow> string set" where
  "narrow results matches =
     (if results \<noteq> {} then results \<inter> set matches else results \<union> set matches)"

definition search_profiles :: "storage \<Rightarrow> filters \<Rightarrow> string set" where
  "search_profiles st fs =
     (let idx = index st;
          results = {};
          results =
            (case f_company fs of
               None \<Rightarrow> results
             | Some company \<Rightarrow>
                 (case by_company idx company of
                    None \<Rightarrow> results
                  | Some bucket \<Rightarrow> results \<union> set bucket));
          results =
            (case f_goal fs of
               None \<Rightarrow> results
             | Some goal \<Rightarrow>
                 (case by_goal idx goal of
                    None \<Rightarrow> results
                  | Some bucket \<Rightarrow> narrow results bucket));
          results =
            (case f_status fs of
               None \<Rightarrow> results
             | Some status_key \<Rightarrow>
                 (case by_status idx status_key of
                    None \<Rightarrow> results
                  | Some bucket \<Rightarrow> narrow results bucket));
          results =
            (case f_relevance fs of
               None \<Rightarrow> results
             | Some relevance \<Rightarrow>
                 (case by_relevance idx relevance of
                    None \<Rightarrow> results
                  | Some bucket \<Rightarrow> narrow results bucket));
          results =
            (case f_tags fs of
               None \<Rightarrow> results
             | Some given \<Rightarrow>
                 (let tag_list = (case given of TagList ts \<Rightarrow> ts | OneTag tag \<Rightarrow> [tag]);
                      tag_results =
                        concat (map (\<lambda>tag. case by_tags idx tag of None \<Rightarrow> [] | Some bucket \<Rightarrow> bucket)
                                  tag_list)
                  in narrow results tag_results));
          results =
            (case f_name fs of
               None \<Rightarrow> results
             | Some name_given \<Rightarrow>
                 (let name_filter = lower name_given;
                      name_results =
                        map fst (filter (\<lambda>(pid, profile_data).
                                           is_substring name_filter (lower (sum_name profile_data)))
                                   (profiles idx))
                  in narrow results name_results))
      in if results = {} \<and> fs = no_filters then set (map fst (profiles idx)) else results)"

section \<open>The profile manager (profile\_manager.py)\<close>

text \<open>
  Each operation loads the profile, returns False when there is none, mutates the
  loaded object and saves it. \<open>Inl k\<close> passes on a document outside the typed model.
\<close>

definition manager_add_interaction ::
  "'dt datetime_lib \<Rightarrow> 'dt ambient \<Rightarrow> storage \<Rightarrow> string \<Rightarrow> string \<Rightarrow> string \<Rightarrow> string \<Rightarrow>
   string + bool \<times> storage" where
  "manager_add_interaction L a st pid interaction_type content outcome =
     (case load_profile L a st pid of
        Inl k \<Rightarrow> Inl k
      | Inr None \<Rightarrow> Inr (False, st)
      | Inr (Some profile) \<Rightarrow>
          Inr (save_profile L (now_saved a) st
                 (add_interaction L (now_stamp a) (now_touch a) profile interaction_type content
                    outcome)))"

definition manager_add_note ::
  "'dt datetime_lib \<Rightarrow> 'dt ambient \<Rightarrow> storage \<Rightarrow> string \<Rightarrow> string \<Rightarrow> string \<Rightarrow>
   string + bool \<times> storage" where
  "manager_add_note L a st pid note category =
     (case load_profile L a st pid of
        Inl k \<Rightarrow> Inl k
      | Inr None \<Rightarrow> Inr (False, st)
      | Inr (Some profile) \<Rightarrow>
          Inr (save_profile L (now_saved a) st
                 (add_note L (now_stamp a) (now_touch a) profile note category)))"

definition manager_update_status ::
  "'dt datetime_lib \<Rightarrow> 'dt ambient \<Rightarrow> storage \<Rightarrow> string \<Rightarrow> ProspectStatus \<Rightarrow>
   string + bool \<times> storage" where
  "manager_update_status L a st pid new_status =
     (case load_profile L a st pid of
        Inl k \<Rightarrow> Inl k
      | Inr None \<Rightarrow> Inr (False, st)
      | Inr (Some profile) \<Rightarrow>
          Inr (save_profile L (now_saved a) st (update_status (now_touch a) profile new_status)))"

definition manager_add_tag ::
  "'dt datetime_lib \<Rightarrow> 'dt ambient \<Rightarrow> storage \<Rightarrow> string \<Rightarrow> string \<Rightarrow> string + bool \<times> storage" where
  "manager_add_tag L a st pid tag =
     (case load_profile L a st pid of
        Inl k \<Rightarrow> Inl k
      | Inr None \<Rightarrow> Inr (False, st)
      | Inr (Some profile) \<Rightarrow>
          Inr (save_profile L (now_saved a) st (add_tag (now_touch a) profile tag)))"

definition manager_update_profile ::
  "'dt datetime_lib \<Rightarrow> 'dt ambient \<Rightarrow> storage \<Rightarrow> 'dt ProspectProfile \<Rightarrow> bool \<times> storage" where
  "manager_update_profile L a st profile =
     save_profile L (now_saved a) st
       (profile\<lparr>updated_at := now_touch a, version := version profile + 1\<rparr>)"

definition manager_delete_profile ::
  "'dt datetime_lib \<Rightarrow> 'dt \<Rightarrow> storage \<Rightarrow> string \<Rightarrow> bool \<times> storage" where
  "manager_delete_profile L t st pid = delete_profile L t st pid"




section \<open>Worked inputs\<close>

text \<open>
  The inputs of the concrete theorems below. \<open>text_lib\<close> is the library on datetimes
  that are written down as their ISO text; \<open>acme\<close> is a profile as the discovery
  pipeline leaves it, discovered and of high relevance.
\<close>

definition text_lib :: "string datetime_lib" where
  "text_lib = \<lparr>isoformat = (\<lambda>d. d), fromisoformat = (\<lambda>s. Some s)\<rparr>"

definition clock :: "string \<Rightarrow> string ambient" where
  "clock t =
     \<lparr>uuid4 = ''00000000-0000-4000-8000-000000000000'',
      now_discovery = t, now_created = t, now_updated = t, now_stamp = t, now_touch = t,
      now_saved = t\<rparr>"

definition acme :: "string ProspectProfile" where
  "acme =
     (new_ProspectProfile (clock ''2024-01-01T09:00:00''))
       \<lparr>profile_id := ''p-1'', name := ''Acme Inc'', prospect_type := COMPANY,
        goal_alignment := new_GoalAlignment\<lparr>relevance_score := HIGH\<rparr>,
        discovery_metadata :=
          (new_DiscoveryMetadata ''2024-01-01T09:00:00'')
            \<lparr>company_goal := ''find clients'', discovering_company := ''Initech''\<rparr>\<rparr>"

definition fresh_store :: storage where
  "fresh_store = init_storage text_lib ''2024-01-01T08:00:00'' ''2024-01-01T08:00:00''"

definition acme_store :: storage where
  "acme_store = snd (save_profile text_lib ''2024-01-01T09:00:01'' fresh_store acme)"

text \<open>The consistency of index and documents: the summary map has the ids of the files.\<close>

definition consistent :: "storage \<Rightarrow> bool" where
  "consistent st = (fst ` set (profiles (index st)) = dom (files st))"

text \<open>
  The searches and stores of the concrete theorems: a search by status alone and by
  status and relevance; the store after \<open>acme\<close> was marked as contacted; a store with
  two damaged files; \<open>acme\<close> with the tag "x" already on it; and a store of two profiles.
\<close>

definition only_status :: "string \<Rightarrow> filters" where
  "only_status s = no_filters\<lparr>f_status := Some s\<rparr>"

definition by_status_and_relevance :: "string \<Rightarrow> string \<Rightarrow> filters" where
  "by_status_and_relevance s r = no_filters\<lparr>f_status := Some s, f_relevance := Some r\<rparr>"

definition contacted_store :: storage where
  "contacted_store =
     snd (save_profile text_lib ''2024-01-05T10:00:00'' acme_store
            (update_status ''2024-01-05T10:00:00'' acme CONTACTED))"

definition damaged_store :: storage where
  "damaged_store =
     fresh_store\<lparr>files :=
       [''torn'' \<mapsto> Malformed,
        ''edited'' \<mapsto> Document (JObj [(''profile_id'', JStr ''edited''),
                                        (''status'', JStr ''on hold'')])]\<rparr>"

definition tagged :: "string ProspectProfile" where
  "tagged = acme\<lparr>tags := [''x'']\<rparr>"

definition tagged_store :: storage where
  "tagged_store = snd (save_profile text_lib ''2024-01-01T09:00:01'' fresh_store tagged)"

definition globex :: "string ProspectProfile" where
  "globex = acme\<lparr>profile_id := ''p-2'', name := ''Globex'', updated_at := ''2024-02-01T09:00:00''\<rparr>"

definition pair_store :: storage where
  "pair_store = snd (save_profile text_lib ''2024-02-01T09:00:01'' acme_store globex)"

definition retagged_store :: storage where
  "retagged_store = snd (save_profile text_lib ''2024-01-08T10:00:00'' tagged_store tagged)"

definition retagged_twice_store :: storage where
  "retagged_twice_store =
     snd (save_profile text_lib ''2024-01-08T11:00:00'' retagged_store tagged)"

section \<open>Serialisation: a document read back is the profile that was written\<close>

lemma then_r_Inr [simp]: "then_r (Inr x) f = f x"
  by (simp add: then_r_def)

lemma then_r_Inl [simp]: "then_r (Inl e) f = Inl e"
  by (simp add: then_r_def)

lemma those_str_of_JStr [simp]: "those (map (str_of \<circ> JStr) xs) = Some xs"
  by (induction xs) simp_all

lemma those_dict_of_JObj [simp]: "those (map (dict_of \<circ> JObj) xs) = Some xs"
  by (induction xs) simp_all

lemma as_str_list_JStr [simp]: "as_str_list k (JList (map JStr xs)) = Inr xs"
  by (simp add: as_str_list_def)

lemma as_dict_list_JObj [simp]: "as_dict_list k (JList (map JObj xs)) = Inr xs"
  by (simp add: as_dict_list_def)

lemma as_str_dict_json [simp]: "as_str_dict k (str_dict_json d) = Inr d"
proof -
  have "those (map (\<lambda>(key, x). map_option (Pair key) (str_of x))
                (map (\<lambda>(key, s). (key, JStr s)) d)) = Some d"
    by (induction d) auto
  then show ?thesis
    by (simp add: as_str_dict_def str_dict_json_def)
qed

lemma as_opt_str_json [simp]: "as_opt_str k (opt_str_json v) = Inr v"
  by (cases v) (simp_all add: as_opt_str_def opt_str_json_def)

lemma as_str_JStr [simp]: "as_str k (JStr s) = Inr s"
  by (simp add: as_str_def)

lemma as_int_JInt [simp]: "as_int k (JInt i) = Inr i"
  by (simp add: as_int_def)

lemma ProspectType_call_value [simp]: "ProspectType_call (JStr (prospect_type_value t)) = Inr t"
  by (cases t) (simp_all add: ProspectType_call_def)

lemma RelevanceScore_call_value [simp]: "RelevanceScore_call (JStr (relevance_value r)) = Inr r"
  by (cases r) (simp_all add: RelevanceScore_call_def)

lemma ProspectStatus_call_value [simp]: "ProspectStatus_call (JStr (status_value s)) = Inr s"
  by (cases s) (simp_all add: ProspectStatus_call_def)

lemma fromisoformat_call_isoformat [simp]:
  "lib_ok L \<Longrightarrow> fromisoformat_call L (JStr (isoformat L d)) = Inr d"
  by (simp add: fromisoformat_call_def lib_ok_def)

lemma contact_info_roundtrip:
  "contact_info_from (JObj
     [(''email'', opt_str_json (email c)),
      (''phone'', opt_str_json (phone c)),
      (''linkedin'', opt_str_json (linkedin c)),
      (''website'', opt_str_json (website c)),
      (''twitter'', opt_str_json (twitter c)),
      (''other'', str_dict_json (other c))]) = Inr c"
  by (simp add: contact_info_from_def py_get_def dict_get_def)

lemma goal_alignment_roundtrip:
  "goal_alignment_from (JObj
     [(''relevance_score'', JStr (relevance_value (relevance_score g))),
      (''fit_reasons'', JList (map JStr (fit_reasons g))),
      (''potential_value'', JStr (potential_value g)),
      (''approach_priority'', JStr (approach_priority g)),
      (''alignment_notes'', JStr (alignment_notes g))]) = Inr g"
  by (simp add: goal_alignment_from_def py_get_def dict_get_def)

lemma discovery_metadata_roundtrip:
  "lib_ok L \<Longrightarrow>
   discovery_metadata_from L a (JObj
     [(''discovery_date'', JStr (isoformat L (discovery_date m))),
      (''source_query'', JStr (source_query m)),
      (''search_context'', JStr (search_context m)),
      (''company_goal'', JStr (company_goal m)),
      (''discovering_company'', JStr (discovering_company m)),
      (''discovery_session_id'', JStr (discovery_session_id m))]) = Inr m"
  by (simp add: discovery_metadata_from_def py_get_def dict_get_def)

lemma from_dict_to_dict: "lib_ok L \<Longrightarrow> from_dict L a (to_dict L p) = Inr p"
  by (simp add: from_dict_def to_dict_def py_get_def dict_get_def contact_info_roundtrip
      goal_alignment_roundtrip discovery_metadata_roundtrip)

lemma lib_ok_text_lib: "lib_ok text_lib"
  by (simp add: lib_ok_def text_lib_def)

lemma files_save_profile:
  "files (snd (save_profile L t st p)) = (files st)(profile_id p \<mapsto> Document (to_dict L p))"
  by (simp add: save_profile_def Let_def)

lemma load_stored:
  "lib_ok L \<Longrightarrow> files st pid = Some (Document (to_dict L p)) \<Longrightarrow>
   load_profile L a st pid = Inr (Some p)"
  by (simp add: load_profile_def load_profile_try_def from_dict_to_dict)



text \<open>
  C8. A profile built by \<^verbatim>\<open>ProspectProfile()\<close> has status "discovered", relevance
  "Unscored", version 1 and no notes. After one \<^verbatim>\<open>add_note\<close> its version is 2 and it
  has one note; and when the fresh profile is stored, one \<^verbatim>\<open>add_note\<close> of the manager
  succeeds and leaves exactly that profile in the store.
\<close>

theorem C8_fresh_profile_then_note:
  assumes "lib_ok L"
  shows "status_value (status (new_ProspectProfile a)) = ''discovered''
       \<and> relevance_value (relevance_score (goal_alignment (new_ProspectProfile a))) = ''Unscored''
       \<and> version (new_ProspectProfile a) = 1
       \<and> notes' (new_ProspectProfile a) = []
       \<and> (let fresh = new_ProspectProfile a;
               noted = add_note L (now_stamp b) (now_touch b) fresh note category;
               st1 = snd (save_profile L t st fresh);
               st2 = snd (save_profile L (now_saved b) st1 noted)
           in version noted = 2
            \<and> length (notes' noted) = 1
            \<and> manager_add_note L b st1 (profile_id fresh) note category = Inr (True, st2)
            \<and> load_profile L c st2 (profile_id fresh) = Inr (Some noted))"
proof -
  define fresh where "fresh = new_ProspectProfile a"
  define noted where "noted = add_note L (now_stamp b) (now_touch b) fresh note category"
  define st1 where "st1 = snd (save_profile L t st fresh)"
  define st2 where "st2 = snd (save_profile L (now_saved b) st1 noted)"
  have id: "profile_id noted = profile_id fresh"
    by (simp add: noted_def add_note_def)
  have loaded: "load_profile L b st1 (profile_id fresh) = Inr (Some fresh)"
    using assms by (simp add: st1_def load_stored files_save_profile)
  have "manager_add_note L b st1 (profile_id fresh) note category
          = Inr (save_profile L (now_saved b) st1 noted)"
    by (simp add: manager_add_note_def loaded noted_def)
  moreover have "fst (save_profile L (now_saved b) st1 noted) = True"
    by (simp add: save_profile_def Let_def)
  ultimately have saved:
    "manager_add_note L b st1 (profile_id fresh) note category = Inr (True, st2)"
    by (simp add: st2_def prod_eq_iff)
  have reload: "load_profile L c st2 (profile_id fresh) = Inr (Some noted)"
    using assms id by (simp add: st2_def load_stored files_save_profile)
  have counted: "version noted = 2" "length (notes' noted) = 1"
    by (simp_all add: noted_def fresh_def add_note_def new_ProspectProfile_def)
  have defaults:
    "status_value (status (new_ProspectProfile a)) = ''discovered''"
    "relevance_value (relevance_score (goal_alignment (new_ProspectProfile a))) = ''Unscored''"
    "version (new_ProspectProfile a) = 1"
    "notes' (new_ProspectProfile a) = []"
    by (simp_all add: new_ProspectProfile_def new_GoalAlignment_def)
  show ?thesis
    unfolding Let_def
    using defaults counted saved reload
    unfolding fresh_def noted_def st1_def st2_def
    by (intro conjI)
qed

theorem C8_fresh_profile_then_note_witness:
  "lib_ok text_lib
   \<and> version (new_ProspectProfile (clock ''2024-01-01T09:00:00'')) = 1
   \<and> version (add_note text_lib ''2024-01-03T12:00:00'' ''2024-01-03T12:00:00''
                (new_ProspectProfile (clock ''2024-01-01T09:00:00'')) ''met at the fair''
                ''general'') = 2
   \<and> length (notes' (add_note text_lib ''2024-01-03T12:00:00'' ''2024-01-03T12:00:00''
                (new_ProspectProfile (clock ''2024-01-01T09:00:00'')) ''met at the fair''
                ''general'')) = 1"
  using C8_fresh_profile_then_note [OF lib_ok_text_lib,
      of "clock ''2024-01-01T09:00:00''" "clock ''2024-01-03T12:00:00''" "''met at the fair''"
         "''general''" "''2024-01-01T09:00:01''" fresh_store "clock ''2024-01-04T08:00:00''"]
  by (simp add: lib_ok_text_lib Let_def clock_def)

section \<open>The store: documents and index\<close>

lemma index_save_profile:
  "index (snd (save_profile L t st p)) = save_index L t (update_index L (index st) p)"
  by (simp add: save_profile_def Let_def)

lemma index_delete_profile:
  "index (snd (delete_profile L t st pid)) = save_index L t (remove_from_index (index st) pid)"
  by (simp add: delete_profile_def Let_def)


lemma profiles_save_index [simp]: "profiles (save_index L t idx) = profiles idx"
  by (simp add: save_index_def)








text \<open>
  C10. \<^verbatim>\<open>save_profile\<close> reads the profile and assigns to none of its fields: the
  document it writes is \<^verbatim>\<open>to_dict\<close> of the profile as given, with the version and the
  updated\_at the profile came with, and saving the same profile again writes the same
  document, whatever the clock says. The bumps are made by the mutators, each by one,
  and by \<^verbatim>\<open>update_profile\<close> of the manager before it saves.
\<close>

theorem C10_save_writes_profile_as_given:
  "fst (save_profile L t st p) = True
   \<and> files (snd (save_profile L t st p)) (profile_id p) = Some (Document (to_dict L p))
   \<and> files (snd (save_profile L t' (snd (save_profile L t st p)) p)) (profile_id p)
       = files (snd (save_profile L t st p)) (profile_id p)
   \<and> py_get (to_dict L p) ''version'' JNull = Inr (JInt (version p))
   \<and> py_get (to_dict L p) ''updated_at'' JNull = Inr (JStr (isoformat L (updated_at p)))
   \<and> version (add_note L t1 t2 p note category) = version p + 1
   \<and> version (add_interaction L t1 t2 p kind content outcome) = version p + 1
   \<and> version (update_status t2 p new_status) = version p + 1
   \<and> files (snd (manager_update_profile L a st p)) (profile_id p)
       = Some (Document (to_dict L (p\<lparr>updated_at := now_touch a, version := version p + 1\<rparr>)))"
  by (simp add: files_save_profile save_profile_def Let_def to_dict_def py_get_def dict_get_def
        add_note_def add_interaction_def update_status_def manager_update_profile_def)

section \<open>The worked stores\<close>

lemma acme_fields:
  "profile_id acme = ''p-1''"
  "status acme = DISCOVERED"
  "tags acme = []"
  "relevance_score (goal_alignment acme) = HIGH"
  "company_goal (discovery_metadata acme) = ''find clients''"
  "discovering_company (discovery_metadata acme) = ''Initech''"
  "version acme = 1"
  "updated_at acme = ''2024-01-01T09:00:00''"
  by (simp_all add: acme_def new_ProspectProfile_def new_GoalAlignment_def
        new_DiscoveryMetadata_def clock_def)

lemma fresh_index:
  "profiles (index fresh_store) = []"
  "by_company (index fresh_store) = Map.empty"
  "by_goal (index fresh_store) = Map.empty"
  "by_status (index fresh_store) = Map.empty"
  "by_relevance (index fresh_store) = Map.empty"
  "by_tags (index fresh_store) = Map.empty"
  "files fresh_store = Map.empty"
  by (simp_all add: fresh_store_def init_storage_def)

lemma acme_store_buckets:
  "by_status (index acme_store) = [''discovered'' \<mapsto> [''p-1'']]"
  "by_relevance (index acme_store) = [''High'' \<mapsto> [''p-1'']]"
  "by_company (index acme_store) = [''Initech'' \<mapsto> [''p-1'']]"
  "by_goal (index acme_store) = [''find clients'' \<mapsto> [''p-1'']]"
  "by_tags (index acme_store) = Map.empty"
  "map fst (profiles (index acme_store)) = [''p-1'']"
  "files acme_store = [''p-1'' \<mapsto> Document (to_dict text_lib acme)]"
  by (simp_all add: acme_store_def index_save_profile files_save_profile save_index_def
        update_index_def bucket_add_def acme_fields fresh_index)

lemma fst_save_profile [simp]: "fst (save_profile L t st p) = True"
  by (simp add: save_profile_def Let_def)

lemma save_profile_eq: "save_profile L t st p = (True, snd (save_profile L t st p))"
  by (simp add: prod_eq_iff)

lemma damaged_files:
  "files damaged_store ''torn'' = Some Malformed"
  "files damaged_store ''edited'' =
     Some (Document (JObj [(''profile_id'', JStr ''edited''), (''status'', JStr ''on hold'')]))"
  "files damaged_store ''absent'' = None"
  by (simp_all add: damaged_store_def)

lemma edited_raises:
  "from_dict text_lib a (JObj [(''profile_id'', JStr ''edited''), (''status'', JStr ''on hold'')])
     = Inl (Raises ValueError)"
  by (simp add: from_dict_def py_get_def dict_get_def contact_info_from_def
        goal_alignment_from_def discovery_metadata_from_def as_opt_str_def as_str_dict_def
        as_str_list_def as_dict_list_def RelevanceScore_call_def ProspectType_call_def
        ProspectStatus_call_def lib_ok_text_lib)

section \<open>Searching the index\<close>

text \<open>
  What a search by status and relevance returns on any store: the relevance bucket
  narrows the status bucket only when the status bucket is there and non-empty and the
  relevance bucket is there; otherwise the result is whichever bucket exists.
\<close>

lemma search_by_status_and_relevance:
  "search_profiles st (no_filters\<lparr>f_status := Some s, f_relevance := Some r\<rparr>) =
     (let found = (case by_status (index st) s of None \<Rightarrow> {} | Some bucket \<Rightarrow> set bucket)
      in case by_relevance (index st) r of
           None \<Rightarrow> found
         | Some bucket \<Rightarrow> if found \<noteq> {} then found \<inter> set bucket else set bucket)"
  by (simp add: search_profiles_def no_filters_def narrow_def Let_def split: option.splits)

lemma search_intersects_nonempty_buckets:
  assumes "by_status (index st) s = Some bs" "bs \<noteq> []" "by_relevance (index st) r = Some br"
  shows "search_profiles st (no_filters\<lparr>f_status := Some s, f_relevance := Some r\<rparr>)
           = set bs \<inter> set br"
  using assms by (simp add: search_by_status_and_relevance)

lemma search_by_status:
  "search_profiles st (no_filters\<lparr>f_status := Some s\<rparr>) =
     (case by_status (index st) s of None \<Rightarrow> {} | Some bucket \<Rightarrow> set bucket)"
  by (simp add: search_profiles_def no_filters_def narrow_def Let_def split: option.splits)

text \<open>
  The stale bucket on any store: when a stored profile is in the bucket of its status,
  \<^verbatim>\<open>update_status\<close> to another status leaves it there, and a search for the old
  status still returns it, next to the search for the new one.
\<close>

lemma status_value_inj: "status_value s = status_value s' \<Longrightarrow> s = s'"
  by (cases s; cases s'; simp)

lemma bucket_add_other: "key' \<noteq> key \<Longrightarrow> bucket_add m key pid key' = m key'"
  by (simp add: bucket_add_def split: option.splits)

lemma bucket_add_member:
  "\<exists>bucket. bucket_add m key pid key = Some bucket \<and> pid \<in> set bucket"
  by (simp add: bucket_add_def split: option.splits)

lemma update_status_keeps_old_bucket:
  assumes "lib_ok L" "files st (profile_id p) = Some (Document (to_dict L p))"
    and "by_status (index st) (status_value (status p)) = Some bucket"
    and "profile_id p \<in> set bucket" "new_status \<noteq> status p"
  shows "\<exists>st'. manager_update_status L a st (profile_id p) new_status = Inr (True, st')
           \<and> profile_id p
               \<in> search_profiles st' (no_filters\<lparr>f_status := Some (status_value (status p))\<rparr>)
           \<and> profile_id p
               \<in> search_profiles st' (no_filters\<lparr>f_status := Some (status_value new_status)\<rparr>)"
proof -
  define st' where
    "st' = snd (save_profile L (now_saved a) st (update_status (now_touch a) p new_status))"
  have run: "manager_update_status L a st (profile_id p) new_status = Inr (True, st')"
    using assms(1,2)
    by (simp add: manager_update_status_def load_stored st'_def save_profile_eq [symmetric])
  have buckets: "by_status (index st')
                   = bucket_add (by_status (index st)) (status_value new_status) (profile_id p)"
    by (simp add: st'_def index_save_profile save_index_def update_index_def update_status_def)
  have "status_value (status p) \<noteq> status_value new_status"
    using assms(5) by (auto dest: status_value_inj)
  then have old: "by_status (index st') (status_value (status p)) = Some bucket"
    by (simp add: buckets bucket_add_other assms(3))
  obtain fresh_bucket where new:
    "by_status (index st') (status_value new_status) = Some fresh_bucket"
    "profile_id p \<in> set fresh_bucket"
    using bucket_add_member [of "by_status (index st)" "status_value new_status" "profile_id p"]
    by (auto simp add: buckets)
  show ?thesis
    using run old new assms(4) by (simp add: search_by_status)
qed

text \<open>
  C1. On the store that holds \<open>acme\<close> as discovered, \<^verbatim>\<open>update_status\<close> to contacted
  succeeds, and a search for contacted profiles finds the profile; but the index
  update only adds to buckets, so the profile stays in the bucket of "discovered" and a
  search for discovered profiles still returns it.
\<close>

theorem C1_stale_status_bucket:
  "status acme = DISCOVERED
   \<and> manager_update_status text_lib (clock ''2024-01-05T10:00:00'') acme_store ''p-1'' CONTACTED
       = Inr (True, contacted_store)
   \<and> ''p-1'' \<in> search_profiles contacted_store (only_status ''contacted'')
   \<and> ''p-1'' \<in> search_profiles contacted_store (only_status ''discovered'')
   \<and> by_status (index contacted_store) ''discovered'' = Some [''p-1'']"
proof -
  have loaded: "load_profile text_lib (clock ''2024-01-05T10:00:00'') acme_store ''p-1''
                  = Inr (Some acme)"
    by (rule load_stored [OF lib_ok_text_lib]) (simp add: acme_store_buckets)
  have run: "manager_update_status text_lib (clock ''2024-01-05T10:00:00'') acme_store ''p-1''
               CONTACTED = Inr (True, contacted_store)"
    unfolding manager_update_status_def loaded contacted_store_def
    by (simp add: clock_def save_profile_eq [symmetric])
  have buckets: "by_status (index contacted_store)
                   = [''discovered'' \<mapsto> [''p-1''], ''contacted'' \<mapsto> [''p-1'']]"
    by (simp add: contacted_store_def index_save_profile save_index_def update_index_def
          update_status_def bucket_add_def acme_fields acme_store_buckets)
  show ?thesis
    by (simp add: run buckets acme_fields search_profiles_def only_status_def no_filters_def
          narrow_def Let_def)
qed

text \<open>
  C2. On the store that holds only \<open>acme\<close> (discovered, relevance High): no profile is
  qualified, so the status bucket of "qualified" is missing, yet the search for
  qualified profiles of relevance High returns \<open>acme\<close>; and the search for discovered
  profiles of relevance Low, a bucket that is missing too, returns \<open>acme\<close> as well. In
  both cases the intersection of the two buckets is empty.
\<close>

theorem C2_search_is_not_the_intersection:
  "by_status (index acme_store) ''qualified'' = None
   \<and> by_relevance (index acme_store) ''High'' = Some [''p-1'']
   \<and> search_profiles acme_store (by_status_and_relevance ''qualified'' ''High'') = {''p-1''}
   \<and> by_status (index acme_store) ''discovered'' = Some [''p-1'']
   \<and> by_relevance (index acme_store) ''Low'' = None
   \<and> search_profiles acme_store (by_status_and_relevance ''discovered'' ''Low'') = {''p-1''}"
  by (simp add: search_profiles_def by_status_and_relevance_def no_filters_def narrow_def
        acme_store_buckets Let_def)

section \<open>Deleting and loading\<close>

text \<open>
  Deleting an id that the index does not know leaves the summary map and the five
  bucket maps as they were; only the stamp of the index is renewed.
\<close>

lemma remove_from_index_unknown:
  "map_of (profiles idx) pid = None \<Longrightarrow> remove_from_index idx pid = idx"
  by (simp add: remove_from_index_def)

lemma delete_unknown_keeps_index:
  assumes "map_of (profiles (index st)) pid = None"
  shows "index (snd (delete_profile L t st pid)) = (index st)\<lparr>last_updated := isoformat L t\<rparr>"
  using assms by (simp add: index_delete_profile remove_from_index_unknown save_index_def)

lemma delete_missing_keeps_store:
  assumes "consistent st" "files st pid = None"
  shows "index (snd (delete_profile L t st pid)) = (index st)\<lparr>last_updated := isoformat L t\<rparr>"
    and "files (snd (delete_profile L t st pid)) = files st"
proof -
  from assms have "pid \<notin> fst ` set (profiles (index st))"
    by (auto simp add: consistent_def)
  then have "map_of (profiles (index st)) pid = None"
    by (simp add: map_of_eq_None_iff)
  then show "index (snd (delete_profile L t st pid))
               = (index st)\<lparr>last_updated := isoformat L t\<rparr>"
    by (rule delete_unknown_keeps_index)
  show "files (snd (delete_profile L t st pid)) = files st"
    using assms(2) by (simp add: delete_profile_def Let_def)
qed

text \<open>
  C6. \<^verbatim>\<open>delete_profile\<close> of an id that has no document returns True, the very result
  of deleting a profile that is stored: the caller cannot tell the two apart.
\<close>

theorem C6_delete_of_missing_id_reports_success:
  "files fresh_store ''ghost'' = None
   \<and> fst (delete_profile text_lib ''2024-01-06T10:00:00'' fresh_store ''ghost'') = True
   \<and> files acme_store ''p-1'' = Some (Document (to_dict text_lib acme))
   \<and> fst (delete_profile text_lib ''2024-01-06T10:00:00'' acme_store ''p-1'') = True"
  by (simp add: delete_profile_def Let_def fresh_index acme_store_buckets)

text \<open>
  C7, as the claim states it, fails: a file that \<^verbatim>\<open>json.load\<close> refuses and a document
  whose status is no member of the enum both make the \<^verbatim>\<open>try\<close> block raise, and
  \<^verbatim>\<open>load_profile\<close> then returns None, the result it returns for an id with no file.
\<close>

theorem C7_corrupt_record_loads_as_not_found:
  "files damaged_store ''absent'' = None
   \<and> load_profile text_lib (clock ''2024-01-07T10:00:00'') damaged_store ''absent'' = Inr None
   \<and> files damaged_store ''torn'' = Some Malformed
   \<and> load_profile text_lib (clock ''2024-01-07T10:00:00'') damaged_store ''torn'' = Inr None
   \<and> load_profile_try text_lib (clock ''2024-01-07T10:00:00'') damaged_store ''edited''
       = Inl (Raises ValueError)
   \<and> load_profile text_lib (clock ''2024-01-07T10:00:00'') damaged_store ''edited'' = Inr None"
  by (simp add: load_profile_def load_profile_try_def damaged_files edited_raises)

text \<open>
  C7, amended. \<^verbatim>\<open>load_profile\<close> returns None when the id has no file; the profile
  when the file holds a document that \<^verbatim>\<open>from_dict\<close> reads; and None again, the same
  result as for a missing file, when the file is not JSON or \<^verbatim>\<open>from_dict\<close> raises.
\<close>

theorem C7_load_outcomes:
  "(files st pid = None \<longrightarrow> load_profile L a st pid = Inr None)
   \<and> (files st pid = Some (Document d) \<and> from_dict L a d = Inr p
        \<longrightarrow> load_profile L a st pid = Inr (Some p))
   \<and> (files st pid = Some Malformed \<longrightarrow> load_profile L a st pid = Inr None)
   \<and> (files st pid = Some (Document d) \<and> from_dict L a d = Inl (Raises e)
        \<longrightarrow> load_profile L a st pid = Inr None)"
  by (simp add: load_profile_def load_profile_try_def)

theorem C7_load_outcomes_witness:
  "files damaged_store ''absent'' = None
   \<and> load_profile text_lib (clock ''2024-01-07T10:00:00'') damaged_store ''absent'' = Inr None
   \<and> files acme_store ''p-1'' = Some (Document (to_dict text_lib acme))
   \<and> from_dict text_lib (clock ''2024-01-07T10:00:00'') (to_dict text_lib acme) = Inr acme
   \<and> load_profile text_lib (clock ''2024-01-07T10:00:00'') acme_store ''p-1'' = Inr (Some acme)
   \<and> files damaged_store ''torn'' = Some Malformed
   \<and> load_profile text_lib (clock ''2024-01-07T10:00:00'') damaged_store ''torn'' = Inr None
   \<and> from_dict text_lib (clock ''2024-01-07T10:00:00'')
        (JObj [(''profile_id'', JStr ''edited''), (''status'', JStr ''on hold'')])
       = Inl (Raises ValueError)
   \<and> load_profile text_lib (clock ''2024-01-07T10:00:00'') damaged_store ''edited'' = Inr None"
  using
    C7_load_outcomes [where st = damaged_store and pid = "''absent''" and L = text_lib
      and a = "clock ''2024-01-07T10:00:00''"]
    C7_load_outcomes [where st = acme_store and pid = "''p-1''" and L = text_lib
      and a = "clock ''2024-01-07T10:00:00''" and d = "to_dict text_lib acme" and p = acme]
    C7_load_outcomes [where st = damaged_store and pid = "''torn''" and L = text_lib
      and a = "clock ''2024-01-07T10:00:00''"]
    C7_load_outcomes [where st = damaged_store and pid = "''edited''" and L = text_lib
      and a = "clock ''2024-01-07T10:00:00''" and e = ValueError
      and d = "JObj [(''profile_id'', JStr ''edited''), (''status'', JStr ''on hold'')]"]
  by (simp add: damaged_files acme_store_buckets edited_raises
        from_dict_to_dict [OF lib_ok_text_lib])

section \<open>Listing the index\<close>

lemma slice_bound_nonneg: "0 \<le> i \<Longrightarrow> slice_bound i n = min (nat i) n"
  by (simp add: slice_bound_def)

lemma py_slice_nonneg:
  assumes "0 \<le> offset" "0 \<le> limit"
  shows "py_slice xs offset (offset + limit) = take (nat limit) (drop (nat offset) xs)"
proof -
  have lo: "slice_bound offset (length xs) = min (nat offset) (length xs)"
    using assms by (simp add: slice_bound_nonneg)
  have hi: "slice_bound (offset + limit) (length xs) = min (nat offset + nat limit) (length xs)"
    using assms by (simp add: slice_bound_nonneg nat_add_distrib)
  show ?thesis
  proof (cases "nat offset \<le> length xs")
    case True
    then have "py_slice xs offset (offset + limit)
                 = take (min (nat offset + nat limit) (length xs) - nat offset)
                     (drop (nat offset) xs)"
      by (simp add: py_slice_def lo hi Let_def min_def)
    also have "\<dots> = take (nat limit) (drop (nat offset) xs)"
      using True by (cases "nat offset + nat limit \<le> length xs") (simp_all add: min_def)
    finally show ?thesis .
  next
    case False
    then show ?thesis
      by (simp add: py_slice_def lo hi Let_def min_def)
  qed
qed

lemma sort_reverse_descending: "sorted_wrt (\<lambda>x y. f y \<le> f x) (sort_reverse f xs)"
proof -
  have "sorted (map f (sort_key f (rev xs)))"
    by (rule sorted_sort_key)
  then have "sorted_wrt (\<lambda>x y. f x \<le> f y) (sort_key f (rev xs))"
    by (simp add: sorted_map)
  then show ?thesis
    by (simp add: sort_reverse_def sorted_wrt_rev)
qed

lemma mset_sort_reverse: "mset (sort_reverse f xs) = mset xs"
  by (simp add: sort_reverse_def)

lemma globex_fields:
  "profile_id globex = ''p-2''"
  "updated_at globex = ''2024-02-01T09:00:00''"
  by (simp_all add: globex_def)

lemma pair_profiles_shape:
  "\<exists>s1 s2. profiles (index pair_store) = [(''p-1'', s1), (''p-2'', s2)]
       \<and> sum_updated_at s1 = ''2024-01-01T09:00:00''
       \<and> sum_updated_at s2 = ''2024-02-01T09:00:00''"
  by (simp add: pair_store_def acme_store_def index_save_profile save_index_def update_index_def
        fresh_index acme_fields globex_fields text_lib_def)

lemma pair_profiles_sorted:
  "\<exists>s1 s2. profiles (index pair_store) = [(''p-1'', s1), (''p-2'', s2)]
       \<and> sort_reverse (\<lambda>x. sum_updated_at (snd x)) (profiles (index pair_store))
           = [(''p-2'', s2), (''p-1'', s1)]"
proof -
  obtain s1 s2 where shape: "profiles (index pair_store) = [(''p-1'', s1), (''p-2'', s2)]"
    and t1: "sum_updated_at s1 = ''2024-01-01T09:00:00''"
    and t2: "sum_updated_at s2 = ''2024-02-01T09:00:00''"
    using pair_profiles_shape by blast
  have "sort_reverse (\<lambda>x. sum_updated_at (snd x)) (profiles (index pair_store))
          = [(''p-2'', s2), (''p-1'', s1)]"
    by (simp add: sort_reverse_def shape t1 t2)
  with shape show ?thesis by blast
qed

text \<open>
  C9, as the claim states it, fails for a negative limit: the slice
  \<^verbatim>\<open>profiles[0:-1]\<close> drops the last entry and returns the others. On the store of two
  profiles, a limit of -1 returns one entry, more than the limit.
\<close>

theorem C9_negative_limit_returns_entries:
  "map fst (profiles (index pair_store)) = [''p-1'', ''p-2'']
   \<and> map fst (list_profiles pair_store (- 1) 0) = [''p-2'']
   \<and> \<not> int (length (list_profiles pair_store (- 1) 0)) \<le> - 1"
proof -
  obtain s1 s2 where shape: "profiles (index pair_store) = [(''p-1'', s1), (''p-2'', s2)]"
    and sorted_all: "sort_reverse (\<lambda>x. sum_updated_at (snd x)) (profiles (index pair_store))
                       = [(''p-2'', s2), (''p-1'', s1)]"
    using pair_profiles_sorted by blast
  have "list_profiles pair_store (- 1) 0 = [(''p-2'', s2)]"
    by (simp add: list_profiles_def sorted_all py_slice_def slice_bound_def Let_def)
  then show ?thesis
    by (simp add: shape)
qed

text \<open>
  C9, amended. For a limit and an offset that are not negative, \<^verbatim>\<open>list_profiles\<close>
  returns entries of the index's summary map: all of them are put in descending order
  of their \<^verbatim>\<open>updated_at\<close> strings, the first \<open>offset\<close> are skipped and at most \<open>limit\<close>
  are returned.
\<close>

theorem C9_list_profiles_pages:
  assumes "0 \<le> limit" "0 \<le> offset"
  shows "list_profiles st limit offset
           = take (nat limit) (drop (nat offset)
               (sort_reverse (\<lambda>x. sum_updated_at (snd x)) (profiles (index st))))
       \<and> mset (sort_reverse (\<lambda>x. sum_updated_at (snd x)) (profiles (index st)))
           = mset (profiles (index st))
       \<and> sorted_wrt (\<lambda>x y. sum_updated_at (snd y) \<le> sum_updated_at (snd x))
           (sort_reverse (\<lambda>x. sum_updated_at (snd x)) (profiles (index st)))
       \<and> sorted_wrt (\<lambda>x y. sum_updated_at (snd y) \<le> sum_updated_at (snd x))
           (list_profiles st limit offset)
       \<and> int (length (list_profiles st limit offset)) \<le> limit
       \<and> set (list_profiles st limit offset) \<subseteq> set (profiles (index st))"
proof -
  let ?all = "sort_reverse (\<lambda>x. sum_updated_at (snd x)) (profiles (index st))"
  have page: "list_profiles st limit offset = take (nat limit) (drop (nat offset) ?all)"
    using assms by (simp add: list_profiles_def py_slice_nonneg)
  have desc: "sorted_wrt (\<lambda>x y. sum_updated_at (snd y) \<le> sum_updated_at (snd x)) ?all"
    by (rule sort_reverse_descending)
  have perm: "mset ?all = mset (profiles (index st))"
    by (rule mset_sort_reverse)
  have "sorted_wrt (\<lambda>x y. sum_updated_at (snd y) \<le> sum_updated_at (snd x))
          (take (nat limit) (drop (nat offset) ?all))"
    using desc by (intro sorted_wrt_take sorted_wrt_drop)
  moreover have "int (length (take (nat limit) (drop (nat offset) ?all))) \<le> limit"
    using assms by simp
  moreover have "set (take (nat limit) (drop (nat offset) ?all)) \<subseteq> set (profiles (index st))"
  proof -
    have "set (take (nat limit) (drop (nat offset) ?all)) \<subseteq> set ?all"
      by (meson set_take_subset set_drop_subset subset_trans)
    also have "set ?all = set (profiles (index st))"
      using perm by (rule mset_eq_setD)
    finally show ?thesis .
  qed
  ultimately show ?thesis
    using page desc perm by simp
qed

theorem C9_list_profiles_pages_witness:
  "(0::int) \<le> 1
   \<and> map fst (profiles (index pair_store)) = [''p-1'', ''p-2'']
   \<and> map fst (list_profiles pair_store 1 0) = [''p-2'']
   \<and> map fst (list_profiles pair_store 1 1) = [''p-1'']
   \<and> int (length (list_profiles pair_store 1 1)) \<le> 1"
proof -
  obtain s1 s2 where shape: "profiles (index pair_store) = [(''p-1'', s1), (''p-2'', s2)]"
    and sorted_all: "sort_reverse (\<lambda>x. sum_updated_at (snd x)) (profiles (index pair_store))
                       = [(''p-2'', s2), (''p-1'', s1)]"
    using pair_profiles_sorted by blast
  have first_page: "list_profiles pair_store 1 0 = [(''p-2'', s2)]"
    using C9_list_profiles_pages [of 1 0 pair_store] by (simp add: sorted_all)
  have second_page: "list_profiles pair_store 1 1 = [(''p-1'', s1)]"
    using C9_list_profiles_pages [of 1 1 pair_store] by (simp add: sorted_all)
  show ?thesis
    by (simp add: shape first_page second_page)
qed

section \<open>Adding a tag\<close>

lemma add_tag_new:
  "tag \<notin> set (tags p) \<Longrightarrow>
   add_tag t p tag = p\<lparr>tags := tags p @ [tag], updated_at := t, version := version p + 1\<rparr>"
  by (simp add: add_tag_def)

lemma add_tag_present: "tag \<in> set (tags p) \<Longrightarrow> add_tag t p tag = p"
  by (simp add: add_tag_def)

lemma profile_id_add_tag [simp]: "profile_id (add_tag t p tag) = profile_id p"
  by (simp add: add_tag_def)

lemma manager_add_tag_stored:
  assumes "lib_ok L" "files st (profile_id p) = Some (Document (to_dict L p))"
  shows "manager_add_tag L a st (profile_id p) tag
           = Inr (True, snd (save_profile L (now_saved a) st (add_tag (now_touch a) p tag)))"
  using assms by (simp add: manager_add_tag_def load_stored save_profile_eq [symmetric])

lemma tagged_fields:
  "profile_id tagged = ''p-1''" "tags tagged = [''x'']" "version tagged = 1"
  by (simp_all add: tagged_def acme_fields)

lemma tagged_store_files:
  "files tagged_store (profile_id tagged) = Some (Document (to_dict text_lib tagged))"
  by (simp add: tagged_store_def files_save_profile)

lemma retagged_store_files:
  "files retagged_store (profile_id tagged) = Some (Document (to_dict text_lib tagged))"
  by (simp add: retagged_store_def files_save_profile)

lemma retagged_twice_store_files:
  "files retagged_twice_store (profile_id tagged) = Some (Document (to_dict text_lib tagged))"
  by (simp add: retagged_twice_store_def files_save_profile)

text \<open>
  C4, as the claim states it, fails for a stored profile that already has the tag: both
  calls of \<^verbatim>\<open>add_tag\<close> are then the no-op, both report success, and the version after
  them is the version before them, not one more.
\<close>

theorem C4_tag_already_present:
  "load_profile text_lib (clock ''2024-01-08T09:00:00'') tagged_store ''p-1'' = Inr (Some tagged)
   \<and> tags tagged = [''x'']
   \<and> version tagged = 1
   \<and> manager_add_tag text_lib (clock ''2024-01-08T10:00:00'') tagged_store ''p-1'' ''x''
       = Inr (True, retagged_store)
   \<and> manager_add_tag text_lib (clock ''2024-01-08T11:00:00'') retagged_store ''p-1'' ''x''
       = Inr (True, retagged_twice_store)
   \<and> load_profile text_lib (clock ''2024-01-08T12:00:00'') retagged_twice_store ''p-1''
       = Inr (Some tagged)"
proof -
  have present: "''x'' \<in> set (tags tagged)"
    by (simp add: tagged_fields)
  have first:
    "manager_add_tag text_lib (clock ''2024-01-08T10:00:00'') tagged_store (profile_id tagged) ''x''
       = Inr (True, retagged_store)"
    by (simp add: manager_add_tag_stored [OF lib_ok_text_lib tagged_store_files]
          add_tag_present [OF present] retagged_store_def clock_def)
  have second:
    "manager_add_tag text_lib (clock ''2024-01-08T11:00:00'') retagged_store (profile_id tagged)
       ''x'' = Inr (True, retagged_twice_store)"
    by (simp add: manager_add_tag_stored [OF lib_ok_text_lib retagged_store_files]
          add_tag_present [OF present] retagged_twice_store_def clock_def)
  have before:
    "load_profile text_lib (clock ''2024-01-08T09:00:00'') tagged_store (profile_id tagged)
       = Inr (Some tagged)"
    by (rule load_stored [OF lib_ok_text_lib tagged_store_files])
  have after:
    "load_profile text_lib (clock ''2024-01-08T12:00:00'') retagged_twice_store
       (profile_id tagged) = Inr (Some tagged)"
    by (rule load_stored [OF lib_ok_text_lib retagged_twice_store_files])
  from first second before after show ?thesis
    by (simp add: tagged_fields)
qed

text \<open>
  C4, amended. For a stored profile that does not have the tag yet, two calls of
  \<^verbatim>\<open>add_tag\<close> both report success; after them the stored tag list is the old one with
  the tag appended, so the tag is in it exactly once, and the version is one more than
  before the first call. The second call changes neither: the profile loaded after it
  is the profile loaded after the first.
\<close>

theorem C4_add_tag_twice:
  assumes "lib_ok L" "files st (profile_id p) = Some (Document (to_dict L p))"
    and "tag \<notin> set (tags p)"
  shows "\<exists>st1 st2 p1.
           manager_add_tag L a1 st (profile_id p) tag = Inr (True, st1)
         \<and> manager_add_tag L a2 st1 (profile_id p) tag = Inr (True, st2)
         \<and> load_profile L a3 st1 (profile_id p) = Inr (Some p1)
         \<and> load_profile L a3 st2 (profile_id p) = Inr (Some p1)
         \<and> tags p1 = tags p @ [tag]
         \<and> count_list (tags p1) tag = 1
         \<and> version p1 = version p + 1"
proof -
  define p1 where "p1 = add_tag (now_touch a1) p tag"
  define st1 where "st1 = snd (save_profile L (now_saved a1) st p1)"
  define st2 where "st2 = snd (save_profile L (now_saved a2) st1 p1)"
  have id1: "profile_id p1 = profile_id p"
    by (simp add: p1_def)
  have first: "manager_add_tag L a1 st (profile_id p) tag = Inr (True, st1)"
    using assms(1,2) by (simp add: manager_add_tag_stored st1_def p1_def)
  have stored1: "files st1 (profile_id p1) = Some (Document (to_dict L p1))"
    by (simp add: st1_def files_save_profile)
  have shape:
    "p1 = p\<lparr>tags := tags p @ [tag], updated_at := now_touch a1, version := version p + 1\<rparr>"
    using assms(3) by (simp add: p1_def add_tag_new)
  have has: "tag \<in> set (tags p1)"
    by (simp add: shape)
  have "manager_add_tag L a2 st1 (profile_id p1) tag
          = Inr (True, snd (save_profile L (now_saved a2) st1 (add_tag (now_touch a2) p1 tag)))"
    using assms(1) stored1 by (rule manager_add_tag_stored)
  then have second: "manager_add_tag L a2 st1 (profile_id p) tag = Inr (True, st2)"
    by (simp add: id1 st2_def add_tag_present [OF has])
  have load1: "load_profile L a3 st1 (profile_id p) = Inr (Some p1)"
    using load_stored [OF assms(1) stored1] by (simp add: id1)
  have "files st2 (profile_id p1) = Some (Document (to_dict L p1))"
    by (simp add: st2_def files_save_profile)
  then have load2: "load_profile L a3 st2 (profile_id p) = Inr (Some p1)"
    using load_stored [OF assms(1)] by (simp add: id1)
  have "count_list (tags p1) tag = 1"
    using assms(3) by (simp add: shape count_list_0_iff)
  moreover have "tags p1 = tags p @ [tag]" "version p1 = version p + 1"
    by (simp_all add: shape)
  ultimately show ?thesis
    using first second load1 load2 by blast
qed

theorem C4_add_tag_twice_witness:
  "lib_ok text_lib
   \<and> files acme_store (profile_id acme) = Some (Document (to_dict text_lib acme))
   \<and> ''x'' \<notin> set (tags acme)
   \<and> (\<exists>st1 st2 p1.
         manager_add_tag text_lib (clock ''2024-01-08T10:00:00'') acme_store (profile_id acme) ''x''
           = Inr (True, st1)
       \<and> manager_add_tag text_lib (clock ''2024-01-08T11:00:00'') st1 (profile_id acme) ''x''
           = Inr (True, st2)
       \<and> load_profile text_lib (clock ''2024-01-08T12:00:00'') st1 (profile_id acme)
           = Inr (Some p1)
       \<and> load_profile text_lib (clock ''2024-01-08T12:00:00'') st2 (profile_id acme)
           = Inr (Some p1)
       \<and> tags p1 = [''x'']
       \<and> count_list (tags p1) ''x'' = 1
       \<and> version p1 = 2)"
proof -
  have stored: "files acme_store (profile_id acme) = Some (Document (to_dict text_lib acme))"
    by (simp add: acme_store_buckets acme_fields)
  have absent: "''x'' \<notin> set (tags acme)"
    by (simp add: acme_fields)
  show ?thesis
    using C4_add_tag_twice [OF lib_ok_text_lib stored absent,
        of "clock ''2024-01-08T10:00:00''" "clock ''2024-01-08T11:00:00''"
           "clock ''2024-01-08T12:00:00''"]
    by (simp add: lib_ok_text_lib acme_store_buckets acme_fields)
qed

end
